theory Spec2Isabelle
  imports Main "HOL-Library.Finite_Map" "HOL-Library.Word"
begin

section \<open>Data model (internal/types.go, package personnel_sync)\<close>

text \<open>
  A Go \<^verbatim>\<open>map[string]string\<close> is a finite map that may also be \<^verbatim>\<open>nil\<close>. Reading a nil map
  behaves like reading an empty one, but \<^verbatim>\<open>reflect.DeepEqual\<close> tells the two apart, so the
  nil map is kept as \<open>None\<close>.
\<close>

type_synonym gomap = "(string, string) fmap option"

text \<open>The two-valued read \<^verbatim>\<open>value, ok := m[k]\<close>: \<open>None\<close> is \<^verbatim>\<open>ok == false\<close>.\<close>

definition lookup :: "gomap \<Rightarrow> string \<Rightarrow> string option" where
  "lookup m k = (case m of None \<Rightarrow> None | Some f \<Rightarrow> fmlookup f k)"

text \<open>
  \<^verbatim>\<open>reflect.DeepEqual\<close> on two \<^verbatim>\<open>map[string]string\<close> values: both nil or both non-nil, the
  same length, and every key of the first bound to the same string in the second.
\<close>

definition DeepEqual :: "gomap \<Rightarrow> gomap \<Rightarrow> bool" where
  "DeepEqual a b =
     (case (a, b) of
        (None, None) \<Rightarrow> True
      | (Some f, Some g) \<Rightarrow>
          fcard (fmdom f) = fcard (fmdom g) \<and>
          fBall (fmdom f) (\<lambda>k. fmlookup g k = fmlookup f k)
      | _ \<Rightarrow> False)"

record Person =
  CompareValue :: string
  ID :: string
  Attributes :: gomap
  DisableChanges :: bool

record AttributeMap =
  Source :: string
  Destination :: string
  Required :: bool
  CaseSensitive :: bool

record ChangeSet =
  Create :: "Person list"
  Update :: "Person list"
  Delete :: "Person list"

text \<open>
  \<^verbatim>\<open>ChangeResults\<close> as \<^verbatim>\<open>SyncPeople\<close> builds it: three \<^verbatim>\<open>uint64\<close> counters and the
  \<^verbatim>\<open>Errors\<close> string slice. The zero value of the struct has all counters 0 and no errors.
\<close>

record ChangeResults =
  Created :: "64 word"
  Updated :: "64 word"
  Deleted :: "64 word"
  Errors :: "string list"

definition ChangeResults_zero :: ChangeResults where
  "ChangeResults_zero = \<lparr>Created = 0, Updated = 0, Deleted = 0, Errors = []\<rparr>"

definition ChangeSet_zero :: ChangeSet where
  "ChangeSet_zero = \<lparr>Create = [], Update = [], Delete = []\<rparr>"

section \<open>strings.ToLower\<close>

text \<open>
  Strings are byte lists. \<^verbatim>\<open>strings.ToLower\<close> belongs to the Go library and follows the
  Unicode case tables, which are not modelled: every function below that calls it takes it
  as the parameter \<open>toLower\<close>, and every general result holds for whatever function it is.

  One fact about it is used, for keys written in ASCII. On a string whose bytes are all
  below 128, \<^verbatim>\<open>strings.ToLower\<close> adds 32 to the bytes \<^verbatim>\<open>'A'\<close> .. \<^verbatim>\<open>'Z'\<close> and keeps every other
  byte. \<open>ToLowerASCII\<close> is that byte map, and \<open>lowersASCII toLower\<close> says that \<open>toLower\<close>
  agrees with it on ASCII strings. The concrete examples, all with ASCII keys, are run with
  \<open>ToLowerASCII\<close> for \<open>toLower\<close>.
\<close>

definition toLowerByte :: "char \<Rightarrow> char" where
  "toLowerByte c =
     (let n = (of_char c :: nat) in if 65 \<le> n \<and> n \<le> 90 then char_of (n + 32) else c)"

definition ToLowerASCII :: "string \<Rightarrow> string" where
  "ToLowerASCII s = map toLowerByte s"

definition isASCII :: "string \<Rightarrow> bool" where
  "isASCII s = list_all (\<lambda>c. (of_char c :: nat) < 128) s"

definition lowersASCII :: "(string \<Rightarrow> string) \<Rightarrow> bool" where
  "lowersASCII toLower \<longleftrightarrow> (\<forall>s. isASCII s \<longrightarrow> toLower s = ToLowerASCII s)"

section \<open>The attribute projector: RemapToDestinationAttributes\<close>

text \<open>
  The inner loop over \<^verbatim>\<open>attributeMap\<close>, for one person whose attributes are \<open>pa\<close>. Its state
  is the pair of \<^verbatim>\<open>attrs\<close> and \<^verbatim>\<open>disableChanges\<close>. The \<^verbatim>\<open>log.Printf\<close> of the required
  branch writes to the process log only and is left out.
\<close>

fun remapAttrs ::
  "gomap \<Rightarrow> AttributeMap list \<Rightarrow> (string, string) fmap \<times> bool \<Rightarrow> (string, string) fmap \<times> bool"
where
  "remapAttrs pa [] st = st"
| "remapAttrs pa (attrMap # rest) (attrs, disableChanges) =
     (case lookup pa (Source attrMap) of
        Some v \<Rightarrow> remapAttrs pa rest (fmupd (Destination attrMap) v attrs, disableChanges)
      | None \<Rightarrow>
          if Required attrMap then remapAttrs pa rest (attrs, True)
          else remapAttrs pa rest (attrs, disableChanges))"

text \<open>
  The body of the outer loop: the struct literal names \<^verbatim>\<open>CompareValue\<close>, \<^verbatim>\<open>Attributes\<close> and
  \<^verbatim>\<open>DisableChanges\<close>, so \<^verbatim>\<open>ID\<close> gets its zero value, the empty string.
\<close>

definition remapPerson :: "AttributeMap list \<Rightarrow> Person \<Rightarrow> Person" where
  "remapPerson attributeMap person =
     (let (attrs, disableChanges) = remapAttrs (Attributes person) attributeMap (fmempty, False)
      in \<lparr>CompareValue = CompareValue person, ID = [], Attributes = Some attrs,
          DisableChanges = disableChanges\<rparr>)"

fun remapLoop :: "Person list \<Rightarrow> AttributeMap list \<Rightarrow> Person list \<Rightarrow> Person list" where
  "remapLoop [] attributeMap peopleForDestination = peopleForDestination"
| "remapLoop (person # rest) attributeMap peopleForDestination =
     remapLoop rest attributeMap (peopleForDestination @ [remapPerson attributeMap person])"

text \<open>The result is the Go pair of the slice and the error; \<open>None\<close> is the nil error.\<close>

definition RemapToDestinationAttributes ::
  "Person list \<Rightarrow> AttributeMap list \<Rightarrow> Person list \<times> string option" where
  "RemapToDestinationAttributes sourcePersons attributeMap =
     (remapLoop sourcePersons attributeMap [], None)"

section \<open>The diff engine\<close>

fun IsPersonInList :: "(string \<Rightarrow> string) \<Rightarrow> string \<Rightarrow> Person list \<Rightarrow> bool" where
  "IsPersonInList toLower compareValue [] = False"
| "IsPersonInList toLower compareValue (person # rest) =
     (if toLower (CompareValue person) = toLower compareValue then True
      else IsPersonInList toLower compareValue rest)"

definition PersonIsNotInList :: int where "PersonIsNotInList = 0"
definition PersonIsInList :: int where "PersonIsInList = 1"
definition PersonIsInListButDifferent :: int where "PersonIsInListButDifferent = 2"

fun PersonStatusInList ::
  "(string \<Rightarrow> string) \<Rightarrow> string \<Rightarrow> gomap \<Rightarrow> Person list \<Rightarrow> int" where
  "PersonStatusInList toLower compareValue attrs [] = PersonIsNotInList"
| "PersonStatusInList toLower compareValue attrs (person # rest) =
     (if toLower (CompareValue person) = toLower compareValue then
        (if \<not> DeepEqual attrs (Attributes person) then PersonIsInListButDifferent
         else PersonIsInList)
      else PersonStatusInList toLower compareValue attrs rest)"

text \<open>The first loop of \<^verbatim>\<open>GenerateChangeSet\<close>, over the source people.\<close>

fun createLoop ::
  "(string \<Rightarrow> string) \<Rightarrow> Person list \<Rightarrow> Person list \<Rightarrow> ChangeSet \<Rightarrow> ChangeSet" where
  "createLoop toLower [] destinationPeople changeSet = changeSet"
| "createLoop toLower (sp # rest) destinationPeople changeSet =
     (if DisableChanges sp then createLoop toLower rest destinationPeople changeSet
      else
        (let personInDestinationStatus =
               PersonStatusInList toLower (CompareValue sp) (Attributes sp) destinationPeople
         in if personInDestinationStatus = PersonIsNotInList then
              createLoop toLower rest destinationPeople
                (changeSet\<lparr>Create := Create changeSet @ [sp]\<rparr>)
            else if personInDestinationStatus = PersonIsInListButDifferent then
              createLoop toLower rest destinationPeople
                (changeSet\<lparr>Update := Update changeSet @ [sp]\<rparr>)
            else createLoop toLower rest destinationPeople changeSet))"

text \<open>The second loop, over the destination people.\<close>

fun deleteLoop ::
  "(string \<Rightarrow> string) \<Rightarrow> Person list \<Rightarrow> Person list \<Rightarrow> ChangeSet \<Rightarrow> ChangeSet" where
  "deleteLoop toLower [] sourcePeople changeSet = changeSet"
| "deleteLoop toLower (dp # rest) sourcePeople changeSet =
     (if \<not> IsPersonInList toLower (CompareValue dp) sourcePeople then
        deleteLoop toLower rest sourcePeople (changeSet\<lparr>Delete := Delete changeSet @ [dp]\<rparr>)
      else deleteLoop toLower rest sourcePeople changeSet)"

definition GenerateChangeSet ::
  "(string \<Rightarrow> string) \<Rightarrow> Person list \<Rightarrow> Person list \<Rightarrow> ChangeSet" where
  "GenerateChangeSet toLower sourcePeople destinationPeople =
     deleteLoop toLower destinationPeople sourcePeople
       (createLoop toLower sourcePeople destinationPeople ChangeSet_zero)"

text \<open>
  The two conditions under which the first loop appends a source person, read off the
  loop body: they are used to describe the \<^verbatim>\<open>Create\<close> and \<^verbatim>\<open>Update\<close> lists as filters.
\<close>

definition wantsCreate :: "(string \<Rightarrow> string) \<Rightarrow> Person list \<Rightarrow> Person \<Rightarrow> bool" where
  "wantsCreate toLower destinationPeople sp \<longleftrightarrow>
     \<not> DisableChanges sp \<and>
     PersonStatusInList toLower (CompareValue sp) (Attributes sp) destinationPeople
       = PersonIsNotInList"

definition wantsUpdate :: "(string \<Rightarrow> string) \<Rightarrow> Person list \<Rightarrow> Person \<Rightarrow> bool" where
  "wantsUpdate toLower destinationPeople sp \<longleftrightarrow>
     \<not> DisableChanges sp \<and>
     PersonStatusInList toLower (CompareValue sp) (Attributes sp) destinationPeople
       = PersonIsInListButDifferent"

section \<open>The orchestrator: SyncPeople\<close>

text \<open>
  The collaborators are given by what their methods return. \<^verbatim>\<open>ListUsers\<close> returns the Go pair
  of the slice and the error (\<open>None\<close> is nil, \<open>Some msg\<close> an error whose \<^verbatim>\<open>Error()\<close> is
  \<open>msg\<close>); \<^verbatim>\<open>ApplyChangeSet\<close> maps a change set to its results.
\<close>

record Source =
  ListUsers :: "Person list \<times> string option"

record Destination =
  ListUsers :: "Person list \<times> string option"
  ApplyChangeSet :: "ChangeSet \<Rightarrow> ChangeResults"

text \<open>
  \<^verbatim>\<open>SyncPeople\<close> returns its \<^verbatim>\<open>ChangeResults\<close>; the model pairs it with the sequence of calls
  the run made, in order, so that "is never invoked" can be stated. Its first argument is
  \<^verbatim>\<open>strings.ToLower\<close>, handed on to \<open>GenerateChangeSet\<close>.
\<close>

datatype call =
    CallSourceListUsers
  | CallRemapToDestinationAttributes
  | CallDestinationListUsers
  | CallGenerateChangeSet
  | CallPrintChangeSet
  | CallApplyChangeSet ChangeSet

definition SyncPeople ::
  "(string \<Rightarrow> string) \<Rightarrow> Source \<Rightarrow> Destination \<Rightarrow> AttributeMap list \<Rightarrow> bool
     \<Rightarrow> ChangeResults \<times> call list" where
  "SyncPeople toLower source destination attributeMap dryRun =
     (case Source.ListUsers source of
        (_, Some err) \<Rightarrow> (ChangeResults_zero\<lparr>Errors := [err]\<rparr>, [CallSourceListUsers])
      | (sourcePeople, None) \<Rightarrow>
     (case RemapToDestinationAttributes sourcePeople attributeMap of
        (_, Some err) \<Rightarrow>
          (ChangeResults_zero\<lparr>Errors := [err]\<rparr>,
           [CallSourceListUsers, CallRemapToDestinationAttributes])
      | (sourcePeople, None) \<Rightarrow>
     (case Destination.ListUsers destination of
        (_, Some err) \<Rightarrow>
          (ChangeResults_zero\<lparr>Errors := [err]\<rparr>,
           [CallSourceListUsers, CallRemapToDestinationAttributes, CallDestinationListUsers])
      | (destinationPeople, None) \<Rightarrow>
     (let changeSet = GenerateChangeSet toLower sourcePeople destinationPeople;
          calls = [CallSourceListUsers, CallRemapToDestinationAttributes,
                   CallDestinationListUsers, CallGenerateChangeSet]
      in if dryRun then
           (ChangeResults_zero
              \<lparr>Created := word_of_nat (length (Create changeSet)),
               Updated := word_of_nat (length (Update changeSet)),
               Deleted := word_of_nat (length (Delete changeSet))\<rparr>,
            calls @ [CallPrintChangeSet])
         else
           (ApplyChangeSet destination changeSet, calls @ [CallApplyChangeSet changeSet])))))"

section \<open>Destination constructors and their batch sizes\<close>

text \<open>Go's \<^verbatim>\<open>int\<close> fields are only compared and assigned here, so they are integers.\<close>

record WebHelpDesk =
  URL :: string
  Username :: string
  Password :: string
  ListClientsPageLimit :: int
  BatchSizePerMinute :: int

definition DefaultBatchSizePerMinute :: int where "DefaultBatchSizePerMinute = 50"
definition DefaultListClientsPageLimit :: int where "DefaultListClientsPageLimit = 100"

text \<open>
  \<^verbatim>\<open>NewWebHelpDeskDesination\<close>. Its argument is what \<^verbatim>\<open>json.Unmarshal\<close> left behind: the
  struct it filled and the error it returned. The result is the Go pair of the destination
  and the error.
\<close>

definition NewWebHelpDeskDesination ::
  "WebHelpDesk \<times> string option \<Rightarrow> WebHelpDesk \<times> string option" where
  "NewWebHelpDeskDesination unmarshalled =
     (case unmarshalled of
        (webHelpDesk, Some err) \<Rightarrow> (webHelpDesk, Some err)
      | (webHelpDesk, None) \<Rightarrow>
          (let w1 = (if BatchSizePerMinute webHelpDesk \<le> 0
                     then webHelpDesk\<lparr>BatchSizePerMinute := DefaultBatchSizePerMinute\<rparr>
                     else webHelpDesk);
               w2 = (if ListClientsPageLimit w1 = 0
                     then w1\<lparr>ListClientsPageLimit := DefaultListClientsPageLimit\<rparr>
                     else w1)
           in (w2, None)))"

text \<open>
  The arguments of the \<^verbatim>\<open>NewBatchTimer\<close> call in \<^verbatim>\<open>(*WebHelpDesk).ApplyChangeSet\<close>: the batch
  size and the seconds per batch.
\<close>

definition WebHelpDesk_batchTimerArgs :: "WebHelpDesk \<Rightarrow> int \<times> int" where
  "WebHelpDesk_batchTimerArgs w = (BatchSizePerMinute w, 60)"

text \<open>
  \<^verbatim>\<open>GoogleContactsConfig\<close> without its \<^verbatim>\<open>GoogleAuth\<close> field, and \<^verbatim>\<open>GoogleContacts\<close> without its
  \<^verbatim>\<open>DestinationConfig\<close> and \<^verbatim>\<open>Client\<close> fields: the constructor's defaults and the batch timer
  read none of them.
\<close>

record GoogleContactsConfig =
  DelegatedAdminEmail :: string
  Domain :: string
  BatchSize :: int
  BatchDelaySeconds :: int

record GoogleContacts =
  GoogleContactsConfig :: GoogleContactsConfig

definition GoogleContacts_zero :: GoogleContacts where
  "GoogleContacts_zero =
     \<lparr>GoogleContactsConfig =
        \<lparr>DelegatedAdminEmail = [], Domain = [], BatchSize = 0, BatchDelaySeconds = 0\<rparr>\<rparr>"

text \<open>
  The constants \<^verbatim>\<open>DestinationTypeGoogleContacts\<close>, \<^verbatim>\<open>DefaultBatchSize\<close> and
  \<^verbatim>\<open>DefaultBatchDelaySeconds\<close> are declared outside the files at hand, so they are the
  record of parameters \<open>consts\<close>.
\<close>

record GoogleConsts =
  DestinationTypeGoogleContacts :: string
  DefaultBatchSize :: int
  DefaultBatchDelaySeconds :: int

text \<open>
  \<^verbatim>\<open>NewGoogleContactsDestination\<close>. \<open>configType\<close> is \<^verbatim>\<open>destinationConfig.Type\<close>,
  \<open>unmarshalled\<close> the configuration and error left by \<^verbatim>\<open>json.Unmarshal\<close>, and \<open>initErr\<close> the
  error of \<^verbatim>\<open>initGoogleClient\<close>. The returned pointer is \<open>None\<close> where the code returns nil.
\<close>

definition NewGoogleContactsDestination ::
  "GoogleConsts \<Rightarrow> string \<Rightarrow> GoogleContactsConfig \<times> string option \<Rightarrow> string option
     \<Rightarrow> GoogleContacts option \<times> string option" where
  "NewGoogleContactsDestination consts configType unmarshalled initErr =
     (if configType \<noteq> DestinationTypeGoogleContacts consts then
        (None, Some (''invalid config type: '' @ configType))
      else
        (case unmarshalled of
           (_, Some err) \<Rightarrow> (Some GoogleContacts_zero, Some err)
         | (config, None) \<Rightarrow>
             (let c1 = (if BatchSize config \<le> 0
                        then config\<lparr>BatchSize := DefaultBatchSize consts\<rparr> else config);
                  c2 = (if BatchDelaySeconds c1 \<le> 0
                        then c1\<lparr>BatchDelaySeconds := DefaultBatchDelaySeconds consts\<rparr> else c1)
              in (case initErr of
                    Some err \<Rightarrow> (Some GoogleContacts_zero, Some err)
                  | None \<Rightarrow> (Some \<lparr>GoogleContactsConfig = c2\<rparr>, None)))))"

text \<open>The arguments of the \<^verbatim>\<open>NewBatchTimer\<close> call in \<^verbatim>\<open>(*GoogleContacts).ApplyChangeSet\<close>.\<close>

definition GoogleContacts_batchTimerArgs :: "GoogleContacts \<Rightarrow> int \<times> int" where
  "GoogleContacts_batchTimerArgs g =
     (BatchSize (GoogleContactsConfig g), BatchDelaySeconds (GoogleContactsConfig g))"

section \<open>Notation for concrete people\<close>

abbreviation mkPerson :: "string \<Rightarrow> gomap \<Rightarrow> bool \<Rightarrow> Person" where
  "mkPerson cv attrs disabled \<equiv>
     \<lparr>CompareValue = cv, ID = [], Attributes = attrs, DisableChanges = disabled\<rparr>"

abbreviation attr1 :: "string \<Rightarrow> string \<Rightarrow> gomap" where
  "attr1 k v \<equiv> Some (fmupd k v fmempty)"

abbreviation attr2 :: "string \<Rightarrow> string \<Rightarrow> string \<Rightarrow> string \<Rightarrow> gomap" where
  "attr2 k v k' v' \<equiv> Some (fmupd k' v' (fmupd k v fmempty))"

section \<open>Facts about the diff engine\<close>

lemma DeepEqual_iff: "DeepEqual a b \<longleftrightarrow> a = b"
proof (cases a; cases b)
  fix f g assume ab: "a = Some f" "b = Some g"
  show ?thesis
  proof
    assume "DeepEqual a b"
    then have c: "fcard (fmdom f) = fcard (fmdom g)"
      and v: "\<And>k. k |\<in>| fmdom f \<Longrightarrow> fmlookup g k = fmlookup f k"
      by (auto simp: DeepEqual_def ab)
    have sub: "fmdom f |\<subseteq>| fmdom g"
    proof
      fix k assume "k |\<in>| fmdom f"
      then have "fmlookup g k = fmlookup f k" "fmlookup f k \<noteq> None"
        by (auto simp: v fmdom_notI)
      then show "k |\<in>| fmdom g" by (metis fmdom_notD)
    qed
    have "fmdom f = fmdom g"
      using sub c by (metis fcard_seteq order_refl)
    then have "\<And>k. fmlookup f k = fmlookup g k"
      by (metis v fmdom_notD)
    then show "a = b" by (simp add: ab fmap_ext)
  next
    assume "a = b" then show "DeepEqual a b" by (simp add: DeepEqual_def ab)
  qed
qed (simp_all add: DeepEqual_def)

lemma gomap_eq_iff:
  "a = b \<longleftrightarrow> (a = None \<longleftrightarrow> b = None) \<and> (\<forall>k. lookup a k = lookup b k)"
  by (cases a; cases b) (auto simp: lookup_def intro: fmap_ext)

lemma IsPersonInList_iff:
  "IsPersonInList toLower cv ps \<longleftrightarrow> (\<exists>p \<in> set ps. toLower (CompareValue p) = toLower cv)"
  by (induction ps) auto

lemma PersonStatusInList_absent_iff:
  "PersonStatusInList toLower cv a ps = PersonIsNotInList \<longleftrightarrow> \<not> IsPersonInList toLower cv ps"
  by (induction ps)
     (auto simp: PersonIsNotInList_def PersonIsInList_def PersonIsInListButDifferent_def)

lemma PersonStatusInList_different_present:
  "PersonStatusInList toLower cv a ps = PersonIsInListButDifferent \<Longrightarrow> IsPersonInList toLower cv ps"
  by (induction ps)
     (auto simp: PersonIsNotInList_def PersonIsInList_def PersonIsInListButDifferent_def
           split: if_splits)

lemma PersonStatusInList_first_match:
  assumes "\<forall>q \<in> set pre. toLower (CompareValue q) \<noteq> toLower cv"
    and "toLower (CompareValue dp) = toLower cv"
  shows "PersonStatusInList toLower cv a (pre @ dp # post) =
           (if a = Attributes dp then PersonIsInList else PersonIsInListButDifferent)"
  using assms by (induction pre) (auto simp: DeepEqual_iff)

lemma createLoop_Create:
  "Create (createLoop toLower src dst cs) = Create cs @ filter (wantsCreate toLower dst) src"
  by (induction src arbitrary: cs)
     (auto simp: wantsCreate_def Let_def PersonIsNotInList_def PersonIsInListButDifferent_def)

lemma createLoop_Update:
  "Update (createLoop toLower src dst cs) = Update cs @ filter (wantsUpdate toLower dst) src"
  by (induction src arbitrary: cs)
     (auto simp: wantsUpdate_def Let_def PersonIsNotInList_def PersonIsInListButDifferent_def)

lemma createLoop_Delete: "Delete (createLoop toLower src dst cs) = Delete cs"
  by (induction src arbitrary: cs) (auto simp: Let_def)

lemma deleteLoop_Delete:
  "Delete (deleteLoop toLower dst src cs) =
     Delete cs @ filter (\<lambda>dp. \<not> IsPersonInList toLower (CompareValue dp) src) dst"
  by (induction dst arbitrary: cs) auto

lemma deleteLoop_Create: "Create (deleteLoop toLower dst src cs) = Create cs"
  by (induction dst arbitrary: cs) auto

lemma deleteLoop_Update: "Update (deleteLoop toLower dst src cs) = Update cs"
  by (induction dst arbitrary: cs) auto

lemma GenerateChangeSet_Create:
  "Create (GenerateChangeSet toLower src dst) = filter (wantsCreate toLower dst) src"
  by (simp add: GenerateChangeSet_def deleteLoop_Create createLoop_Create ChangeSet_zero_def)

lemma GenerateChangeSet_Update:
  "Update (GenerateChangeSet toLower src dst) = filter (wantsUpdate toLower dst) src"
  by (simp add: GenerateChangeSet_def deleteLoop_Update createLoop_Update ChangeSet_zero_def)

lemma GenerateChangeSet_Delete:
  "Delete (GenerateChangeSet toLower src dst) =
     filter (\<lambda>dp. \<not> IsPersonInList toLower (CompareValue dp) src) dst"
  by (simp add: GenerateChangeSet_def deleteLoop_Delete createLoop_Delete ChangeSet_zero_def)

lemma in_Create_iff:
  "p \<in> set (Create (GenerateChangeSet toLower src dst)) \<longleftrightarrow>
     p \<in> set src \<and> \<not> DisableChanges p \<and> \<not> IsPersonInList toLower (CompareValue p) dst"
  by (auto simp: GenerateChangeSet_Create wantsCreate_def PersonStatusInList_absent_iff)

lemma in_Update_iff:
  "p \<in> set (Update (GenerateChangeSet toLower src dst)) \<longleftrightarrow>
     p \<in> set src \<and> \<not> DisableChanges p \<and>
     PersonStatusInList toLower (CompareValue p) (Attributes p) dst = PersonIsInListButDifferent"
  by (auto simp: GenerateChangeSet_Update wantsUpdate_def)

lemma in_Update_present:
  "p \<in> set (Update (GenerateChangeSet toLower src dst)) \<Longrightarrow> IsPersonInList toLower (CompareValue p) dst"
  by (auto simp: in_Update_iff dest: PersonStatusInList_different_present)

lemma in_Delete_iff:
  "p \<in> set (Delete (GenerateChangeSet toLower src dst)) \<longleftrightarrow>
     p \<in> set dst \<and> \<not> IsPersonInList toLower (CompareValue p) src"
  by (auto simp: GenerateChangeSet_Delete)

section \<open>Facts about the attribute projector\<close>

lemma remapAttrs_lookup_None:
  "fmlookup (fst (remapAttrs pa m (attrs, dis))) d = None \<longleftrightarrow>
     fmlookup attrs d = None \<and>
     (\<forall>am \<in> set m. Destination am = d \<longrightarrow> lookup pa (Source am) = None)"
  by (induction m arbitrary: attrs dis) (auto split: option.splits)

lemma remapAttrs_disable:
  "snd (remapAttrs pa m (attrs, dis)) \<longleftrightarrow>
     dis \<or> (\<exists>am \<in> set m. Required am \<and> lookup pa (Source am) = None)"
  by (induction m arbitrary: attrs dis) (auto split: option.splits)

lemma remapPerson_simps:
  "CompareValue (remapPerson m p) = CompareValue p"
  "ID (remapPerson m p) = []"
  "Attributes (remapPerson m p) = Some (fst (remapAttrs (Attributes p) m (fmempty, False)))"
  "DisableChanges (remapPerson m p) = snd (remapAttrs (Attributes p) m (fmempty, False))"
  by (simp_all add: remapPerson_def split: prod.splits)

lemma remapLoop_eq: "remapLoop ps m acc = acc @ map (remapPerson m) ps"
  by (induction ps arbitrary: acc) auto

lemma RemapToDestinationAttributes_eq:
  "RemapToDestinationAttributes ps m = (map (remapPerson m) ps, None)"
  by (simp add: RemapToDestinationAttributes_def remapLoop_eq)

section \<open>Facts about the orchestrator\<close>

lemma length_Create_le: "length (Create (GenerateChangeSet toLower src dst)) \<le> length src"
  by (simp add: GenerateChangeSet_Create)

lemma length_Update_le: "length (Update (GenerateChangeSet toLower src dst)) \<le> length src"
  by (simp add: GenerateChangeSet_Update)

lemma length_Delete_le: "length (Delete (GenerateChangeSet toLower src dst)) \<le> length dst"
  by (simp add: GenerateChangeSet_Delete)

lemma unat_len64: "n < 2 ^ 63 \<Longrightarrow> unat (word_of_nat n :: 64 word) = n"
proof -
  assume "n < 2 ^ 63"
  then have "n < 2 ^ 64" by simp
  then show ?thesis by (simp add: unat_of_nat)
qed

lemma SyncPeople_dry_run:
  assumes "snd (Source.ListUsers source) = None"
    and "snd (Destination.ListUsers destination) = None"
  shows "SyncPeople toLower source destination m True =
     (let cs = GenerateChangeSet toLower
                 (fst (RemapToDestinationAttributes (fst (Source.ListUsers source)) m))
                 (fst (Destination.ListUsers destination))
      in (\<lparr>Created = word_of_nat (length (Create cs)),
           Updated = word_of_nat (length (Update cs)),
           Deleted = word_of_nat (length (Delete cs)), Errors = []\<rparr>,
          [CallSourceListUsers, CallRemapToDestinationAttributes, CallDestinationListUsers,
           CallGenerateChangeSet, CallPrintChangeSet]))"
  using assms
  by (cases "Source.ListUsers source"; cases "Destination.ListUsers destination")
     (simp add: SyncPeople_def RemapToDestinationAttributes_eq ChangeResults_zero_def Let_def)

section \<open>The claims\<close>

text \<open>
  C1. When no source person and destination person have compareKeys that are equal after
  \<^verbatim>\<open>strings.ToLower\<close> (the parameter \<open>toLower\<close>), \<open>GenerateChangeSet\<close> returns \<open>Create\<close> equal to the source persons with
  \<open>DisableChanges = False\<close> in source order, \<open>Delete\<close> equal to the whole destination list
  in destination order, and an empty \<open>Update\<close>.
\<close>

theorem C1_no_overlap:
  assumes "\<forall>sp \<in> set src. \<forall>dp \<in> set dst.
             toLower (CompareValue sp) \<noteq> toLower (CompareValue dp)"
  shows "Create (GenerateChangeSet toLower src dst) = filter (\<lambda>sp. \<not> DisableChanges sp) src
       \<and> Delete (GenerateChangeSet toLower src dst) = dst
       \<and> Update (GenerateChangeSet toLower src dst) = []"
proof -
  have absent: "\<not> IsPersonInList toLower (CompareValue sp) dst" if "sp \<in> set src" for sp
    using assms that unfolding IsPersonInList_iff by metis
  have absent': "\<not> IsPersonInList toLower (CompareValue dp) src" if "dp \<in> set dst" for dp
    using assms that unfolding IsPersonInList_iff by metis
  have c: "filter (wantsCreate toLower dst) src = filter (\<lambda>sp. \<not> DisableChanges sp) src"
    by (rule filter_cong) (auto simp: wantsCreate_def PersonStatusInList_absent_iff absent)
  have u: "filter (wantsUpdate toLower dst) src = []"
    using absent
    by (auto simp: filter_empty_conv wantsUpdate_def dest: PersonStatusInList_different_present)
  have d: "filter (\<lambda>dp. \<not> IsPersonInList toLower (CompareValue dp) src) dst = dst"
    by (simp add: filter_id_conv absent')
  show ?thesis
    by (simp add: GenerateChangeSet_Create GenerateChangeSet_Update GenerateChangeSet_Delete c u d)
qed

theorem C1_no_overlap_witness:
  "Create (GenerateChangeSet ToLowerASCII
        [mkPerson ''a@x.com'' (Some fmempty) False, mkPerson ''b@x.com'' (Some fmempty) True]
        [mkPerson ''C@x.com'' None False])
      = [mkPerson ''a@x.com'' (Some fmempty) False]
   \<and> Delete (GenerateChangeSet ToLowerASCII
        [mkPerson ''a@x.com'' (Some fmempty) False, mkPerson ''b@x.com'' (Some fmempty) True]
        [mkPerson ''C@x.com'' None False])
      = [mkPerson ''C@x.com'' None False]
   \<and> Update (GenerateChangeSet ToLowerASCII
        [mkPerson ''a@x.com'' (Some fmempty) False, mkPerson ''b@x.com'' (Some fmempty) True]
        [mkPerson ''C@x.com'' None False])
      = []"
proof -
  have h: "\<forall>sp \<in> set [mkPerson ''a@x.com'' (Some fmempty) False,
                       mkPerson ''b@x.com'' (Some fmempty) True].
      \<forall>dp \<in> set [mkPerson ''C@x.com'' None False].
        ToLowerASCII (CompareValue sp) \<noteq> ToLowerASCII (CompareValue dp)"
    by code_simp
  from C1_no_overlap [OF h] show ?thesis by simp
qed

text \<open>
  C2. When the compareKeys, lower-cased by \<^verbatim>\<open>strings.ToLower\<close> (the parameter \<open>toLower\<close>),
  are pairwise different within the source list and within the destination list, no
  lower-cased compareKey occurs in more than one of the lists \<open>Create\<close>, \<open>Update\<close> and
  \<open>Delete\<close> of the change set.
\<close>

theorem C2_keys_disjoint:
  assumes "distinct (map (\<lambda>p. toLower (CompareValue p)) src)"
    and "distinct (map (\<lambda>p. toLower (CompareValue p)) dst)"
  shows "(\<lambda>p. toLower (CompareValue p)) ` set (Create (GenerateChangeSet toLower src dst))
           \<inter> (\<lambda>p. toLower (CompareValue p)) ` set (Update (GenerateChangeSet toLower src dst)) = {}
       \<and> (\<lambda>p. toLower (CompareValue p)) ` set (Create (GenerateChangeSet toLower src dst))
           \<inter> (\<lambda>p. toLower (CompareValue p)) ` set (Delete (GenerateChangeSet toLower src dst)) = {}
       \<and> (\<lambda>p. toLower (CompareValue p)) ` set (Update (GenerateChangeSet toLower src dst))
           \<inter> (\<lambda>p. toLower (CompareValue p)) ` set (Delete (GenerateChangeSet toLower src dst)) = {}"
proof -
  let ?cs = "GenerateChangeSet toLower src dst"
  have cu: False
    if "c \<in> set (Create ?cs)" "u \<in> set (Update ?cs)"
      "toLower (CompareValue c) = toLower (CompareValue u)" for c u
  proof -
    from that(2) have "IsPersonInList toLower (CompareValue u) dst" by (rule in_Update_present)
    then have "IsPersonInList toLower (CompareValue c) dst"
      using that(3) by (simp add: IsPersonInList_iff)
    with that(1) show False by (simp add: in_Create_iff)
  qed
  have cd: False
    if "c \<in> set (Create ?cs)" "d \<in> set (Delete ?cs)"
      "toLower (CompareValue c) = toLower (CompareValue d)" for c d
  proof -
    from that(1) have "c \<in> set src" by (simp add: in_Create_iff)
    then have "IsPersonInList toLower (CompareValue d) src"
      using that(3) by (auto simp: IsPersonInList_iff)
    with that(2) show False by (simp add: in_Delete_iff)
  qed
  have ud: False
    if "u \<in> set (Update ?cs)" "d \<in> set (Delete ?cs)"
      "toLower (CompareValue u) = toLower (CompareValue d)" for u d
  proof -
    from that(1) have "u \<in> set src" by (simp add: in_Update_iff)
    then have "IsPersonInList toLower (CompareValue d) src"
      using that(3) by (auto simp: IsPersonInList_iff)
    with that(2) show False by (simp add: in_Delete_iff)
  qed
  show ?thesis using cu cd ud by blast
qed

theorem C2_keys_disjoint_witness:
  "distinct (map (\<lambda>p. ToLowerASCII (CompareValue p))
      [mkPerson ''a@x.com'' (attr1 ''name'' ''A'') False, mkPerson ''N@x.com'' None False])
   \<and> distinct (map (\<lambda>p. ToLowerASCII (CompareValue p))
      [mkPerson ''A@x.com'' (attr1 ''name'' ''OLD'') False, mkPerson ''b@x.com'' None False])
   \<and> (\<lambda>p. ToLowerASCII (CompareValue p)) ` set (Create (GenerateChangeSet ToLowerASCII
        [mkPerson ''a@x.com'' (attr1 ''name'' ''A'') False, mkPerson ''N@x.com'' None False]
        [mkPerson ''A@x.com'' (attr1 ''name'' ''OLD'') False, mkPerson ''b@x.com'' None False]))
      \<inter> (\<lambda>p. ToLowerASCII (CompareValue p)) ` set (Update (GenerateChangeSet ToLowerASCII
        [mkPerson ''a@x.com'' (attr1 ''name'' ''A'') False, mkPerson ''N@x.com'' None False]
        [mkPerson ''A@x.com'' (attr1 ''name'' ''OLD'') False, mkPerson ''b@x.com'' None False]))
      = {}
   \<and> Create (GenerateChangeSet ToLowerASCII
        [mkPerson ''a@x.com'' (attr1 ''name'' ''A'') False, mkPerson ''N@x.com'' None False]
        [mkPerson ''A@x.com'' (attr1 ''name'' ''OLD'') False, mkPerson ''b@x.com'' None False])
      = [mkPerson ''N@x.com'' None False]
   \<and> Update (GenerateChangeSet ToLowerASCII
        [mkPerson ''a@x.com'' (attr1 ''name'' ''A'') False, mkPerson ''N@x.com'' None False]
        [mkPerson ''A@x.com'' (attr1 ''name'' ''OLD'') False, mkPerson ''b@x.com'' None False])
      = [mkPerson ''a@x.com'' (attr1 ''name'' ''A'') False]
   \<and> Delete (GenerateChangeSet ToLowerASCII
        [mkPerson ''a@x.com'' (attr1 ''name'' ''A'') False, mkPerson ''N@x.com'' None False]
        [mkPerson ''A@x.com'' (attr1 ''name'' ''OLD'') False, mkPerson ''b@x.com'' None False])
      = [mkPerson ''b@x.com'' None False]"
proof -
  have hs: "distinct (map (\<lambda>p. ToLowerASCII (CompareValue p))
      [mkPerson ''a@x.com'' (attr1 ''name'' ''A'') False, mkPerson ''N@x.com'' None False])"
    by code_simp
  have hd: "distinct (map (\<lambda>p. ToLowerASCII (CompareValue p))
      [mkPerson ''A@x.com'' (attr1 ''name'' ''OLD'') False, mkPerson ''b@x.com'' None False])"
    by code_simp
  have c: "Create (GenerateChangeSet ToLowerASCII
        [mkPerson ''a@x.com'' (attr1 ''name'' ''A'') False, mkPerson ''N@x.com'' None False]
        [mkPerson ''A@x.com'' (attr1 ''name'' ''OLD'') False, mkPerson ''b@x.com'' None False])
      = [mkPerson ''N@x.com'' None False]"
    by code_simp
  have u: "Update (GenerateChangeSet ToLowerASCII
        [mkPerson ''a@x.com'' (attr1 ''name'' ''A'') False, mkPerson ''N@x.com'' None False]
        [mkPerson ''A@x.com'' (attr1 ''name'' ''OLD'') False, mkPerson ''b@x.com'' None False])
      = [mkPerson ''a@x.com'' (attr1 ''name'' ''A'') False]"
    by code_simp
  have d: "Delete (GenerateChangeSet ToLowerASCII
        [mkPerson ''a@x.com'' (attr1 ''name'' ''A'') False, mkPerson ''N@x.com'' None False]
        [mkPerson ''A@x.com'' (attr1 ''name'' ''OLD'') False, mkPerson ''b@x.com'' None False])
      = [mkPerson ''b@x.com'' None False]"
    by code_simp
  from C2_keys_disjoint [OF hs hd] have
    "(\<lambda>p. ToLowerASCII (CompareValue p)) ` set (Create (GenerateChangeSet ToLowerASCII
        [mkPerson ''a@x.com'' (attr1 ''name'' ''A'') False, mkPerson ''N@x.com'' None False]
        [mkPerson ''A@x.com'' (attr1 ''name'' ''OLD'') False, mkPerson ''b@x.com'' None False]))
      \<inter> (\<lambda>p. ToLowerASCII (CompareValue p)) ` set (Update (GenerateChangeSet ToLowerASCII
        [mkPerson ''a@x.com'' (attr1 ''name'' ''A'') False, mkPerson ''N@x.com'' None False]
        [mkPerson ''A@x.com'' (attr1 ''name'' ''OLD'') False, mkPerson ''b@x.com'' None False]))
      = {}"
    by (rule conjunct1)
  with hs hd c u d show ?thesis by (intro conjI)
qed

text \<open>
  C3. Matching is case-insensitive on the compareKey: \<open>IsPersonInList\<close> answers true, and
  \<open>PersonStatusInList\<close> answers one of its two "in list" codes, exactly when some member of
  the list has a \<open>CompareValue\<close> equal to the given one after \<^verbatim>\<open>strings.ToLower\<close> of both.
  Given that \<^verbatim>\<open>strings.ToLower\<close> lowers ASCII strings bytewise, a source person and a
  destination person whose ASCII keys differ in letter case only match, and neither is
  placed in \<open>Create\<close> or \<open>Delete\<close>; so it is for the keys \<^verbatim>\<open>User@Example.com\<close> and
  \<^verbatim>\<open>user@example.com\<close>.
\<close>

theorem C3_case_insensitive:
  "(IsPersonInList toLower cv ps \<longleftrightarrow> (\<exists>p \<in> set ps. toLower (CompareValue p) = toLower cv))
 \<and> (PersonStatusInList toLower cv attrs ps = PersonIsInList
      \<or> PersonStatusInList toLower cv attrs ps = PersonIsInListButDifferent
      \<longleftrightarrow> (\<exists>p \<in> set ps. toLower (CompareValue p) = toLower cv))
 \<and> (PersonStatusInList toLower cv attrs ps = PersonIsNotInList
      \<longleftrightarrow> \<not> (\<exists>p \<in> set ps. toLower (CompareValue p) = toLower cv))
 \<and> (lowersASCII toLower \<and> sp \<in> set src \<and> dp \<in> set dst
      \<and> isASCII (CompareValue sp) \<and> isASCII (CompareValue dp)
      \<and> ToLowerASCII (CompareValue sp) = ToLowerASCII (CompareValue dp)
      \<longrightarrow> IsPersonInList toLower (CompareValue sp) dst
        \<and> PersonStatusInList toLower (CompareValue sp) (Attributes sp) dst \<noteq> PersonIsNotInList
        \<and> sp \<notin> set (Create (GenerateChangeSet toLower src dst))
        \<and> sp \<notin> set (Delete (GenerateChangeSet toLower src dst))
        \<and> dp \<notin> set (Create (GenerateChangeSet toLower src dst))
        \<and> dp \<notin> set (Delete (GenerateChangeSet toLower src dst)))
 \<and> (lowersASCII toLower \<and> sp \<in> set src \<and> dp \<in> set dst
      \<and> CompareValue sp = ''User@Example.com'' \<and> CompareValue dp = ''user@example.com''
      \<longrightarrow> IsPersonInList toLower (CompareValue sp) dst
        \<and> PersonStatusInList toLower (CompareValue sp) (Attributes sp) dst \<noteq> PersonIsNotInList
        \<and> sp \<notin> set (Create (GenerateChangeSet toLower src dst))
        \<and> sp \<notin> set (Delete (GenerateChangeSet toLower src dst))
        \<and> dp \<notin> set (Create (GenerateChangeSet toLower src dst))
        \<and> dp \<notin> set (Delete (GenerateChangeSet toLower src dst)))"
proof -
  have a: "PersonStatusInList toLower cv attrs ps = PersonIsNotInList
      \<longleftrightarrow> \<not> (\<exists>p \<in> set ps. toLower (CompareValue p) = toLower cv)"
    by (simp add: PersonStatusInList_absent_iff IsPersonInList_iff)
  have three: "PersonStatusInList toLower cv attrs ps = PersonIsNotInList
      \<or> PersonStatusInList toLower cv attrs ps = PersonIsInList
      \<or> PersonStatusInList toLower cv attrs ps = PersonIsInListButDifferent"
    by (induction ps) auto
  have b: "PersonStatusInList toLower cv attrs ps = PersonIsInList
      \<or> PersonStatusInList toLower cv attrs ps = PersonIsInListButDifferent
      \<longleftrightarrow> (\<exists>p \<in> set ps. toLower (CompareValue p) = toLower cv)"
    using a three
    by (auto simp: PersonIsNotInList_def PersonIsInList_def PersonIsInListButDifferent_def)
  have i: "IsPersonInList toLower cv ps \<longleftrightarrow> (\<exists>p \<in> set ps. toLower (CompareValue p) = toLower cv)"
    by (rule IsPersonInList_iff)
  have matched: "IsPersonInList toLower (CompareValue sp) dst
        \<and> PersonStatusInList toLower (CompareValue sp) (Attributes sp) dst \<noteq> PersonIsNotInList
        \<and> sp \<notin> set (Create (GenerateChangeSet toLower src dst))
        \<and> sp \<notin> set (Delete (GenerateChangeSet toLower src dst))
        \<and> dp \<notin> set (Create (GenerateChangeSet toLower src dst))
        \<and> dp \<notin> set (Delete (GenerateChangeSet toLower src dst))"
    if h: "sp \<in> set src" "dp \<in> set dst"
      and eq: "toLower (CompareValue dp) = toLower (CompareValue sp)"
  proof -
    have 1: "IsPersonInList toLower (CompareValue sp) dst"
      using h(2) eq by (auto simp: IsPersonInList_iff)
    have 2: "IsPersonInList toLower (CompareValue dp) src"
      using h(1) eq by (auto simp: IsPersonInList_iff)
    have 3: "IsPersonInList toLower (CompareValue sp) src"
      using h(1) by (auto simp: IsPersonInList_iff)
    have 4: "IsPersonInList toLower (CompareValue dp) dst"
      using h(2) by (auto simp: IsPersonInList_iff)
    show ?thesis
      using 1 2 3 4 by (simp add: in_Create_iff in_Delete_iff PersonStatusInList_absent_iff)
  qed
  have fold: "toLower (CompareValue dp) = toLower (CompareValue sp)"
    if "lowersASCII toLower" "isASCII (CompareValue sp)" "isASCII (CompareValue dp)"
      "ToLowerASCII (CompareValue sp) = ToLowerASCII (CompareValue dp)"
    using that by (simp add: lowersASCII_def)
  have c: "lowersASCII toLower \<and> sp \<in> set src \<and> dp \<in> set dst
      \<and> isASCII (CompareValue sp) \<and> isASCII (CompareValue dp)
      \<and> ToLowerASCII (CompareValue sp) = ToLowerASCII (CompareValue dp)
      \<longrightarrow> IsPersonInList toLower (CompareValue sp) dst
        \<and> PersonStatusInList toLower (CompareValue sp) (Attributes sp) dst \<noteq> PersonIsNotInList
        \<and> sp \<notin> set (Create (GenerateChangeSet toLower src dst))
        \<and> sp \<notin> set (Delete (GenerateChangeSet toLower src dst))
        \<and> dp \<notin> set (Create (GenerateChangeSet toLower src dst))
        \<and> dp \<notin> set (Delete (GenerateChangeSet toLower src dst))"
    using matched fold by blast
  have ex1: "isASCII ''User@Example.com''" by code_simp
  have ex2: "isASCII ''user@example.com''" by code_simp
  have ex3: "ToLowerASCII ''User@Example.com'' = ToLowerASCII ''user@example.com''" by code_simp
  have d: "lowersASCII toLower \<and> sp \<in> set src \<and> dp \<in> set dst
      \<and> CompareValue sp = ''User@Example.com'' \<and> CompareValue dp = ''user@example.com''
      \<longrightarrow> IsPersonInList toLower (CompareValue sp) dst
        \<and> PersonStatusInList toLower (CompareValue sp) (Attributes sp) dst \<noteq> PersonIsNotInList
        \<and> sp \<notin> set (Create (GenerateChangeSet toLower src dst))
        \<and> sp \<notin> set (Delete (GenerateChangeSet toLower src dst))
        \<and> dp \<notin> set (Create (GenerateChangeSet toLower src dst))
        \<and> dp \<notin> set (Delete (GenerateChangeSet toLower src dst))"
  proof (intro impI, elim conjE)
    assume l: "lowersASCII toLower" and m: "sp \<in> set src" "dp \<in> set dst"
      and k: "CompareValue sp = ''User@Example.com''" "CompareValue dp = ''user@example.com''"
    have "toLower (CompareValue dp) = toLower (CompareValue sp)"
      using fold [OF l] ex1 ex2 ex3 k by simp
    with m show "IsPersonInList toLower (CompareValue sp) dst
        \<and> PersonStatusInList toLower (CompareValue sp) (Attributes sp) dst \<noteq> PersonIsNotInList
        \<and> sp \<notin> set (Create (GenerateChangeSet toLower src dst))
        \<and> sp \<notin> set (Delete (GenerateChangeSet toLower src dst))
        \<and> dp \<notin> set (Create (GenerateChangeSet toLower src dst))
        \<and> dp \<notin> set (Delete (GenerateChangeSet toLower src dst))"
      by (rule matched)
  qed
  show ?thesis by (rule conjI [OF i conjI [OF b conjI [OF a conjI [OF c d]]]])
qed

theorem C3_case_insensitive_witness:
  "IsPersonInList ToLowerASCII (CompareValue (mkPerson ''User@Example.com'' (Some fmempty) False))
     [mkPerson ''user@example.com'' None False]
 \<and> mkPerson ''User@Example.com'' (Some fmempty) False
      \<notin> set (Create (GenerateChangeSet ToLowerASCII
                [mkPerson ''User@Example.com'' (Some fmempty) False]
                [mkPerson ''user@example.com'' None False]))
 \<and> mkPerson ''user@example.com'' None False
      \<notin> set (Delete (GenerateChangeSet ToLowerASCII
                [mkPerson ''User@Example.com'' (Some fmempty) False]
                [mkPerson ''user@example.com'' None False]))"
proof -
  have h: "lowersASCII ToLowerASCII
         \<and> mkPerson ''User@Example.com'' (Some fmempty) False
             \<in> set [mkPerson ''User@Example.com'' (Some fmempty) False]
         \<and> mkPerson ''user@example.com'' None False \<in> set [mkPerson ''user@example.com'' None False]
         \<and> CompareValue (mkPerson ''User@Example.com'' (Some fmempty) False) = ''User@Example.com''
         \<and> CompareValue (mkPerson ''user@example.com'' None False) = ''user@example.com''"
    by (simp add: lowersASCII_def)
  note t = C3_case_insensitive [where toLower = ToLowerASCII
      and sp = "mkPerson ''User@Example.com'' (Some fmempty) False"
      and src = "[mkPerson ''User@Example.com'' (Some fmempty) False]"
      and dp = "mkPerson ''user@example.com'' None False"
      and dst = "[mkPerson ''user@example.com'' None False]"
      and cv = "[]" and ps = "[]" and attrs = None,
      THEN conjunct2, THEN conjunct2, THEN conjunct2, THEN conjunct2, THEN mp, OF h]
  from t show ?thesis by blast
qed

text \<open>
  C4. A source person with \<open>DisableChanges = True\<close> is in neither \<open>Create\<close> nor \<open>Update\<close>,
  whether or not the destination has a match, and no destination person whose compareKey
  equals its compareKey after \<^verbatim>\<open>strings.ToLower\<close> of both is in \<open>Delete\<close>. The example projects two people who lack
  the required attribute \<^verbatim>\<open>first\<close> and diffs the outcome.
\<close>

theorem C4_disabled_source:
  assumes "sp \<in> set src" and "DisableChanges sp"
  shows "sp \<notin> set (Create (GenerateChangeSet toLower src dst))
       \<and> sp \<notin> set (Update (GenerateChangeSet toLower src dst))
       \<and> (\<forall>dp \<in> set dst. toLower (CompareValue dp) = toLower (CompareValue sp)
             \<longrightarrow> dp \<notin> set (Delete (GenerateChangeSet toLower src dst)))"
  using assms by (auto simp: in_Create_iff in_Update_iff in_Delete_iff IsPersonInList_iff)

theorem C4_disabled_source_witness:
  "fst (RemapToDestinationAttributes
     [mkPerson ''a@x.com'' (attr1 ''mail'' ''a@x.com'') False,
      mkPerson ''z@x.com'' (attr1 ''mail'' ''z@x.com'') False]
     [\<lparr>Source = ''mail'', Destination = ''email'', Required = True, CaseSensitive = False\<rparr>,
      \<lparr>Source = ''first'', Destination = ''name'', Required = True, CaseSensitive = False\<rparr>])
   = [mkPerson ''a@x.com'' (attr1 ''email'' ''a@x.com'') True,
      mkPerson ''z@x.com'' (attr1 ''email'' ''z@x.com'') True]
 \<and> mkPerson ''z@x.com'' (attr1 ''email'' ''z@x.com'') True
     \<notin> set (Create (GenerateChangeSet ToLowerASCII
          [mkPerson ''a@x.com'' (attr1 ''email'' ''a@x.com'') True,
           mkPerson ''z@x.com'' (attr1 ''email'' ''z@x.com'') True]
          [mkPerson ''A@x.com'' (attr1 ''email'' ''OLD'') False]))
 \<and> mkPerson ''a@x.com'' (attr1 ''email'' ''a@x.com'') True
     \<notin> set (Update (GenerateChangeSet ToLowerASCII
          [mkPerson ''a@x.com'' (attr1 ''email'' ''a@x.com'') True,
           mkPerson ''z@x.com'' (attr1 ''email'' ''z@x.com'') True]
          [mkPerson ''A@x.com'' (attr1 ''email'' ''OLD'') False]))
 \<and> mkPerson ''A@x.com'' (attr1 ''email'' ''OLD'') False
     \<notin> set (Delete (GenerateChangeSet ToLowerASCII
          [mkPerson ''a@x.com'' (attr1 ''email'' ''a@x.com'') True,
           mkPerson ''z@x.com'' (attr1 ''email'' ''z@x.com'') True]
          [mkPerson ''A@x.com'' (attr1 ''email'' ''OLD'') False]))"
proof -
  have r: "fst (RemapToDestinationAttributes
     [mkPerson ''a@x.com'' (attr1 ''mail'' ''a@x.com'') False,
      mkPerson ''z@x.com'' (attr1 ''mail'' ''z@x.com'') False]
     [\<lparr>Source = ''mail'', Destination = ''email'', Required = True, CaseSensitive = False\<rparr>,
      \<lparr>Source = ''first'', Destination = ''name'', Required = True, CaseSensitive = False\<rparr>])
   = [mkPerson ''a@x.com'' (attr1 ''email'' ''a@x.com'') True,
      mkPerson ''z@x.com'' (attr1 ''email'' ''z@x.com'') True]"
    by code_simp
  have low: "ToLowerASCII (CompareValue (mkPerson ''A@x.com'' (attr1 ''email'' ''OLD'') False))
           = ToLowerASCII (CompareValue (mkPerson ''a@x.com'' (attr1 ''email'' ''a@x.com'') True))"
    by code_simp
  have z: "mkPerson ''z@x.com'' (attr1 ''email'' ''z@x.com'') True
     \<in> set [mkPerson ''a@x.com'' (attr1 ''email'' ''a@x.com'') True,
             mkPerson ''z@x.com'' (attr1 ''email'' ''z@x.com'') True]"
    by simp
  have a: "mkPerson ''a@x.com'' (attr1 ''email'' ''a@x.com'') True
     \<in> set [mkPerson ''a@x.com'' (attr1 ''email'' ''a@x.com'') True,
             mkPerson ''z@x.com'' (attr1 ''email'' ''z@x.com'') True]"
    by simp
  have dz: "DisableChanges (mkPerson ''z@x.com'' (attr1 ''email'' ''z@x.com'') True)"
    by simp
  have da: "DisableChanges (mkPerson ''a@x.com'' (attr1 ''email'' ''a@x.com'') True)"
    by simp
  have d: "mkPerson ''A@x.com'' (attr1 ''email'' ''OLD'') False
     \<in> set [mkPerson ''A@x.com'' (attr1 ''email'' ''OLD'') False]"
    by simp
  from C4_disabled_source [OF z dz, where toLower = ToLowerASCII
         and dst = "[mkPerson ''A@x.com'' (attr1 ''email'' ''OLD'') False]"]
       C4_disabled_source [OF a da, where toLower = ToLowerASCII
         and dst = "[mkPerson ''A@x.com'' (attr1 ''email'' ''OLD'') False]"]
       r low d
  show ?thesis by blast
qed

text \<open>
  C10. Every person returned by \<open>RemapToDestinationAttributes\<close> has the empty \<open>ID\<close>, also
  when the input person carries one.
\<close>

theorem C10_output_ID_empty:
  "\<forall>out \<in> set (fst (RemapToDestinationAttributes ps m)). ID out = []"
  by (auto simp: RemapToDestinationAttributes_eq remapPerson_simps)

theorem C10_output_ID_empty_witness:
  "fst (RemapToDestinationAttributes
     [\<lparr>CompareValue = ''a@x.com'', ID = ''https://x/1'',
       Attributes = attr1 ''mail'' ''a@x.com'', DisableChanges = False\<rparr>]
     [\<lparr>Source = ''mail'', Destination = ''email'', Required = True, CaseSensitive = False\<rparr>])
   = [mkPerson ''a@x.com'' (attr1 ''email'' ''a@x.com'') False]
 \<and> ID (hd (fst (RemapToDestinationAttributes
     [\<lparr>CompareValue = ''a@x.com'', ID = ''https://x/1'',
       Attributes = attr1 ''mail'' ''a@x.com'', DisableChanges = False\<rparr>]
     [\<lparr>Source = ''mail'', Destination = ''email'', Required = True, CaseSensitive = False\<rparr>])))
   = []"
proof -
  have e: "fst (RemapToDestinationAttributes
     [\<lparr>CompareValue = ''a@x.com'', ID = ''https://x/1'',
       Attributes = attr1 ''mail'' ''a@x.com'', DisableChanges = False\<rparr>]
     [\<lparr>Source = ''mail'', Destination = ''email'', Required = True, CaseSensitive = False\<rparr>])
   = [mkPerson ''a@x.com'' (attr1 ''email'' ''a@x.com'') False]"
    by code_simp
  then have "hd (fst (RemapToDestinationAttributes
     [\<lparr>CompareValue = ''a@x.com'', ID = ''https://x/1'',
       Attributes = attr1 ''mail'' ''a@x.com'', DisableChanges = False\<rparr>]
     [\<lparr>Source = ''mail'', Destination = ''email'', Required = True, CaseSensitive = False\<rparr>]))
    \<in> set (fst (RemapToDestinationAttributes
     [\<lparr>CompareValue = ''a@x.com'', ID = ''https://x/1'',
       Attributes = attr1 ''mail'' ''a@x.com'', DisableChanges = False\<rparr>]
     [\<lparr>Source = ''mail'', Destination = ''email'', Required = True, CaseSensitive = False\<rparr>]))"
    by simp
  with C10_output_ID_empty e show ?thesis by blast
qed

text \<open>
  C5, as stated, at a mapping with two entries for the destination key \<^verbatim>\<open>x\<close>: the source key
  \<^verbatim>\<open>b\<close> of the second, non-required entry is absent from the person, yet the output
  attributes hold \<^verbatim>\<open>x\<close>, written by the first entry.
\<close>

theorem C5_literal_counterexample:
  "\<not> Required \<lparr>Source = ''b'', Destination = ''x'', Required = False, CaseSensitive = False\<rparr>
 \<and> lookup (Attributes (mkPerson ''p@x.com'' (attr1 ''a'' ''1'') False))
       (Source \<lparr>Source = ''b'', Destination = ''x'', Required = False, CaseSensitive = False\<rparr>)
     = None
 \<and> lookup (Attributes (hd (fst (RemapToDestinationAttributes
       [mkPerson ''p@x.com'' (attr1 ''a'' ''1'') False]
       [\<lparr>Source = ''a'', Destination = ''x'', Required = False, CaseSensitive = False\<rparr>,
        \<lparr>Source = ''b'', Destination = ''x'', Required = False, CaseSensitive = False\<rparr>]))))
       (Destination \<lparr>Source = ''b'', Destination = ''x'', Required = False, CaseSensitive = False\<rparr>)
     = Some ''1''"
  by code_simp

text \<open>
  C5, amended. \<open>RemapToDestinationAttributes\<close> returns the nil error for every input list
  and mapping, and one output person per input person, in order. For each input person:
  if some mapping entry is required and its source key is absent from the person's
  attributes, the output person has \<open>DisableChanges = True\<close>; a destination key is absent
  from the output attributes exactly when every mapping entry with that destination has its
  source key absent from the person's attributes (an absent source key writes nothing, so
  its destination key is left out unless another entry with the same destination supplies
  it); and the output \<open>CompareValue\<close> is the input one.
\<close>

theorem C5_remap_degrades:
  "snd (RemapToDestinationAttributes ps m) = None
 \<and> length (fst (RemapToDestinationAttributes ps m)) = length ps
 \<and> (\<forall>i < length ps.
       ((\<exists>am \<in> set m. Required am \<and> lookup (Attributes (ps ! i)) (Source am) = None)
          \<longrightarrow> DisableChanges (fst (RemapToDestinationAttributes ps m) ! i))
     \<and> (\<forall>d. lookup (Attributes (fst (RemapToDestinationAttributes ps m) ! i)) d = None
            \<longleftrightarrow> (\<forall>am \<in> set m. Destination am = d
                   \<longrightarrow> lookup (Attributes (ps ! i)) (Source am) = None))
     \<and> CompareValue (fst (RemapToDestinationAttributes ps m) ! i) = CompareValue (ps ! i))"
  by (simp add: RemapToDestinationAttributes_eq remapPerson_simps remapAttrs_disable
      lookup_def [of "Some _"] remapAttrs_lookup_None)

theorem C5_remap_degrades_witness:
  "snd (RemapToDestinationAttributes
     [mkPerson ''a@x.com'' (attr1 ''mail'' ''a@x.com'') False]
     [\<lparr>Source = ''mail'', Destination = ''email'', Required = True, CaseSensitive = False\<rparr>,
      \<lparr>Source = ''first'', Destination = ''name'', Required = True, CaseSensitive = False\<rparr>,
      \<lparr>Source = ''nick'', Destination = ''alias'', Required = False, CaseSensitive = False\<rparr>])
   = None
 \<and> DisableChanges (fst (RemapToDestinationAttributes
     [mkPerson ''a@x.com'' (attr1 ''mail'' ''a@x.com'') False]
     [\<lparr>Source = ''mail'', Destination = ''email'', Required = True, CaseSensitive = False\<rparr>,
      \<lparr>Source = ''first'', Destination = ''name'', Required = True, CaseSensitive = False\<rparr>,
      \<lparr>Source = ''nick'', Destination = ''alias'', Required = False, CaseSensitive = False\<rparr>]) ! 0)
 \<and> lookup (Attributes (fst (RemapToDestinationAttributes
     [mkPerson ''a@x.com'' (attr1 ''mail'' ''a@x.com'') False]
     [\<lparr>Source = ''mail'', Destination = ''email'', Required = True, CaseSensitive = False\<rparr>,
      \<lparr>Source = ''first'', Destination = ''name'', Required = True, CaseSensitive = False\<rparr>,
      \<lparr>Source = ''nick'', Destination = ''alias'', Required = False, CaseSensitive = False\<rparr>]) ! 0))
     ''alias'' = None
 \<and> CompareValue (fst (RemapToDestinationAttributes
     [mkPerson ''a@x.com'' (attr1 ''mail'' ''a@x.com'') False]
     [\<lparr>Source = ''mail'', Destination = ''email'', Required = True, CaseSensitive = False\<rparr>,
      \<lparr>Source = ''first'', Destination = ''name'', Required = True, CaseSensitive = False\<rparr>,
      \<lparr>Source = ''nick'', Destination = ''alias'', Required = False, CaseSensitive = False\<rparr>]) ! 0)
   = CompareValue ([mkPerson ''a@x.com'' (attr1 ''mail'' ''a@x.com'') False] ! 0)"
proof -
  let ?ps = "[mkPerson ''a@x.com'' (attr1 ''mail'' ''a@x.com'') False]"
  let ?m = "[\<lparr>Source = ''mail'', Destination = ''email'', Required = True, CaseSensitive = False\<rparr>,
      \<lparr>Source = ''first'', Destination = ''name'', Required = True, CaseSensitive = False\<rparr>,
      \<lparr>Source = ''nick'', Destination = ''alias'', Required = False, CaseSensitive = False\<rparr>]"
  have i: "0 < length ?ps" by simp
  have req: "\<exists>am \<in> set ?m. Required am \<and> lookup (Attributes (?ps ! 0)) (Source am) = None"
    by (simp add: lookup_def)
  have opt: "\<forall>am \<in> set ?m. Destination am = ''alias''
               \<longrightarrow> lookup (Attributes (?ps ! 0)) (Source am) = None"
    by (simp add: lookup_def)
  from C5_remap_degrades [of ?ps ?m] i req opt show ?thesis by blast
qed

text \<open>
  C6, as stated, fails in three ways. A source person with \<open>DisableChanges = True\<close> whose
  attributes differ from its destination match is not in \<open>Update\<close>. With two destination
  people of the same key only the first is compared, so a source person equal in attributes
  to the second is still in \<open>Update\<close>. And an empty non-nil attribute map against a nil one
  has the same keys and values, yet \<^verbatim>\<open>reflect.DeepEqual\<close> is false and the person is in
  \<open>Update\<close>.
\<close>

theorem C6_literal_counterexample:
  "\<not> DeepEqual (Attributes (mkPerson ''a@x.com'' (attr1 ''name'' ''A'') True))
                (Attributes (mkPerson ''a@x.com'' (attr1 ''name'' ''OLD'') False))
 \<and> Update (GenerateChangeSet ToLowerASCII [mkPerson ''a@x.com'' (attr1 ''name'' ''A'') True]
                             [mkPerson ''a@x.com'' (attr1 ''name'' ''OLD'') False]) = []
 \<and> DeepEqual (Attributes (mkPerson ''a@x.com'' (attr1 ''name'' ''A'') False))
              (Attributes (mkPerson ''A@x.com'' (attr1 ''name'' ''A'') False))
 \<and> Update (GenerateChangeSet ToLowerASCII [mkPerson ''a@x.com'' (attr1 ''name'' ''A'') False]
                             [mkPerson ''a@x.com'' (attr1 ''name'' ''OLD'') False,
                              mkPerson ''A@x.com'' (attr1 ''name'' ''A'') False])
     = [mkPerson ''a@x.com'' (attr1 ''name'' ''A'') False]
 \<and> Update (GenerateChangeSet ToLowerASCII [mkPerson ''a@x.com'' (Some fmempty) False]
                             [mkPerson ''a@x.com'' None False])
     = [mkPerson ''a@x.com'' (Some fmempty) False]"
  by code_simp

text \<open>
  C6, amended. For a source person with \<open>DisableChanges = False\<close> and the first destination
  person in list order whose compareKey equals its own after \<^verbatim>\<open>strings.ToLower\<close> of both
  (the parameter \<open>toLower\<close>, so for the Unicode folding of the library), the source person is
  in \<open>Update\<close> exactly when \<^verbatim>\<open>reflect.DeepEqual\<close> of the two attribute maps is false; the maps
  are deeply equal exactly when both or neither are nil and every key reads the same in
  both. In particular a destination attribute key absent from the source attributes puts
  the person in \<open>Update\<close>, whatever the shared keys hold.
\<close>

theorem C6_update_iff_not_DeepEqual:
  assumes "sp \<in> set src" and "\<not> DisableChanges sp"
    and "\<forall>q \<in> set pre. toLower (CompareValue q) \<noteq> toLower (CompareValue sp)"
    and "toLower (CompareValue dp) = toLower (CompareValue sp)"
  shows "(sp \<in> set (Update (GenerateChangeSet toLower src (pre @ dp # post)))
            \<longleftrightarrow> \<not> DeepEqual (Attributes sp) (Attributes dp))
       \<and> (DeepEqual (Attributes sp) (Attributes dp)
            \<longleftrightarrow> (Attributes sp = None \<longleftrightarrow> Attributes dp = None)
                \<and> (\<forall>k. lookup (Attributes sp) k = lookup (Attributes dp) k))
       \<and> ((\<exists>k. lookup (Attributes dp) k \<noteq> None \<and> lookup (Attributes sp) k = None)
            \<longrightarrow> sp \<in> set (Update (GenerateChangeSet toLower src (pre @ dp # post))))"
proof -
  have st: "PersonStatusInList toLower (CompareValue sp) (Attributes sp) (pre @ dp # post) =
      (if Attributes sp = Attributes dp then PersonIsInList else PersonIsInListButDifferent)"
    using assms(3,4) by (rule PersonStatusInList_first_match)
  have 1: "sp \<in> set (Update (GenerateChangeSet toLower src (pre @ dp # post)))
            \<longleftrightarrow> \<not> DeepEqual (Attributes sp) (Attributes dp)"
    using assms(1,2)
    by (simp add: in_Update_iff st DeepEqual_iff PersonIsInList_def PersonIsInListButDifferent_def)
  have 2: "DeepEqual (Attributes sp) (Attributes dp)
            \<longleftrightarrow> (Attributes sp = None \<longleftrightarrow> Attributes dp = None)
                \<and> (\<forall>k. lookup (Attributes sp) k = lookup (Attributes dp) k)"
    unfolding DeepEqual_iff by (rule gomap_eq_iff)
  have 3: "(\<exists>k. lookup (Attributes dp) k \<noteq> None \<and> lookup (Attributes sp) k = None)
            \<longrightarrow> sp \<in> set (Update (GenerateChangeSet toLower src (pre @ dp # post)))"
    unfolding 1 2 by auto
  show ?thesis by (rule conjI [OF 1 conjI [OF 2 3]])
qed

theorem C6_update_iff_not_DeepEqual_witness:
  "mkPerson ''a@x.com'' (attr1 ''email'' ''a@x.com'') False
     \<in> set (Update (GenerateChangeSet ToLowerASCII
          [mkPerson ''a@x.com'' (attr1 ''email'' ''a@x.com'') False]
          ([] @ mkPerson ''A@x.com'' (attr2 ''email'' ''a@x.com'' ''extra'' ''1'') False # [])))
 \<and> \<not> DeepEqual (Attributes (mkPerson ''a@x.com'' (attr1 ''email'' ''a@x.com'') False))
       (Attributes (mkPerson ''A@x.com'' (attr2 ''email'' ''a@x.com'' ''extra'' ''1'') False))"
proof -
  let ?sp = "mkPerson ''a@x.com'' (attr1 ''email'' ''a@x.com'') False"
  let ?dp = "mkPerson ''A@x.com'' (attr2 ''email'' ''a@x.com'' ''extra'' ''1'') False"
  have 1: "?sp \<in> set [?sp]" by simp
  have 2: "\<not> DisableChanges ?sp" by simp
  have 3: "\<forall>q \<in> set []. ToLowerASCII (CompareValue q) \<noteq> ToLowerASCII (CompareValue ?sp)" by simp
  have 4: "ToLowerASCII (CompareValue ?dp) = ToLowerASCII (CompareValue ?sp)" by code_simp
  have 5: "\<exists>k. lookup (Attributes ?dp) k \<noteq> None \<and> lookup (Attributes ?sp) k = None"
    by (rule exI [of _ "''extra''"]) (simp add: lookup_def)
  from C6_update_iff_not_DeepEqual [OF 1 2 3 4, where post = "[]"] 5 show ?thesis by blast
qed

text \<open>
  C7. When \<open>SyncPeople\<close> runs with \<open>dryRun = True\<close> and both listings succeed, no call of
  the destination's \<open>ApplyChangeSet\<close> is made, and the counters \<open>Created\<close>, \<open>Updated\<close> and
  \<open>Deleted\<close> of the result are the lengths, converted to \<^verbatim>\<open>uint64\<close>, of the lists \<open>Create\<close>,
  \<open>Update\<close> and \<open>Delete\<close> of the change set computed from the projected source listing and
  the destination listing. The conversion loses nothing for listings shorter than
  \<open>2 ^ 63\<close>, as every Go slice is: then the counters read as numbers are the lengths.
\<close>

theorem C7_dry_run:
  assumes "snd (Source.ListUsers source) = None"
    and "snd (Destination.ListUsers destination) = None"
  shows "(\<forall>c. CallApplyChangeSet c \<notin> set (snd (SyncPeople toLower source destination m True)))
    \<and> Created (fst (SyncPeople toLower source destination m True))
        = word_of_nat (length (Create (GenerateChangeSet toLower
            (fst (RemapToDestinationAttributes (fst (Source.ListUsers source)) m))
            (fst (Destination.ListUsers destination)))))
    \<and> Updated (fst (SyncPeople toLower source destination m True))
        = word_of_nat (length (Update (GenerateChangeSet toLower
            (fst (RemapToDestinationAttributes (fst (Source.ListUsers source)) m))
            (fst (Destination.ListUsers destination)))))
    \<and> Deleted (fst (SyncPeople toLower source destination m True))
        = word_of_nat (length (Delete (GenerateChangeSet toLower
            (fst (RemapToDestinationAttributes (fst (Source.ListUsers source)) m))
            (fst (Destination.ListUsers destination)))))
    \<and> Errors (fst (SyncPeople toLower source destination m True)) = []
    \<and> (length (fst (Source.ListUsers source)) < 2 ^ 63
        \<and> length (fst (Destination.ListUsers destination)) < 2 ^ 63 \<longrightarrow>
          unat (Created (fst (SyncPeople toLower source destination m True)))
            = length (Create (GenerateChangeSet toLower
                (fst (RemapToDestinationAttributes (fst (Source.ListUsers source)) m))
                (fst (Destination.ListUsers destination))))
        \<and> unat (Updated (fst (SyncPeople toLower source destination m True)))
            = length (Update (GenerateChangeSet toLower
                (fst (RemapToDestinationAttributes (fst (Source.ListUsers source)) m))
                (fst (Destination.ListUsers destination))))
        \<and> unat (Deleted (fst (SyncPeople toLower source destination m True)))
            = length (Delete (GenerateChangeSet toLower
                (fst (RemapToDestinationAttributes (fst (Source.ListUsers source)) m))
                (fst (Destination.ListUsers destination)))))"
proof -
  let ?src = "fst (RemapToDestinationAttributes (fst (Source.ListUsers source)) m)"
  let ?dst = "fst (Destination.ListUsers destination)"
  let ?cs = "GenerateChangeSet toLower ?src ?dst"
  have r: "SyncPeople toLower source destination m True =
      (\<lparr>Created = word_of_nat (length (Create ?cs)),
        Updated = word_of_nat (length (Update ?cs)),
        Deleted = word_of_nat (length (Delete ?cs)), Errors = []\<rparr>,
       [CallSourceListUsers, CallRemapToDestinationAttributes, CallDestinationListUsers,
        CallGenerateChangeSet, CallPrintChangeSet])"
    using SyncPeople_dry_run [OF assms, where m = m and toLower = toLower]
    by (simp only: Let_def)
  have t: "\<forall>c. CallApplyChangeSet c \<notin> set (snd (SyncPeople toLower source destination m True))"
    unfolding r by simp
  have cw: "Created (fst (SyncPeople toLower source destination m True))
      = word_of_nat (length (Create ?cs))"
    unfolding r by simp
  have uw: "Updated (fst (SyncPeople toLower source destination m True))
      = word_of_nat (length (Update ?cs))"
    unfolding r by simp
  have dw: "Deleted (fst (SyncPeople toLower source destination m True))
      = word_of_nat (length (Delete ?cs))"
    unfolding r by simp
  have e: "Errors (fst (SyncPeople toLower source destination m True)) = []"
    unfolding r by simp
  have n: "unat (Created (fst (SyncPeople toLower source destination m True))) = length (Create ?cs)
      \<and> unat (Updated (fst (SyncPeople toLower source destination m True))) = length (Update ?cs)
      \<and> unat (Deleted (fst (SyncPeople toLower source destination m True))) = length (Delete ?cs)"
    if b: "length (fst (Source.ListUsers source)) < 2 ^ 63
         \<and> length (fst (Destination.ListUsers destination)) < 2 ^ 63"
  proof -
    have ls: "length ?src < 2 ^ 63"
      using b by (simp add: RemapToDestinationAttributes_eq)
    have c: "length (Create ?cs) < 2 ^ 63"
      using ls length_Create_le [of toLower ?src ?dst] by linarith
    have u: "length (Update ?cs) < 2 ^ 63"
      using ls length_Update_le [of toLower ?src ?dst] by linarith
    have d: "length (Delete ?cs) < 2 ^ 63"
      using b length_Delete_le [of toLower ?src ?dst] by linarith
    show ?thesis
      unfolding cw uw dw using unat_len64 [OF c] unat_len64 [OF u] unat_len64 [OF d] by simp
  qed
  show ?thesis
    by (rule conjI [OF t conjI [OF cw conjI [OF uw conjI [OF dw conjI [OF e impI [OF n]]]]]])
qed

theorem C7_dry_run_witness:
  "(\<forall>c. CallApplyChangeSet c \<notin> set (snd (SyncPeople ToLowerASCII
       \<lparr>Source.ListUsers = ([mkPerson ''a@x.com'' (attr2 ''mail'' ''a@x.com'' ''first'' ''A'') False], None)\<rparr>
       \<lparr>Destination.ListUsers = ([mkPerson ''a@x.com'' (attr2 ''email'' ''a@x.com'' ''name'' ''OLD'') False,
                      mkPerson ''b@x.com'' (attr1 ''email'' ''b@x.com'') False], None),
        ApplyChangeSet = (\<lambda>cs. ChangeResults_zero)\<rparr>
       [\<lparr>Source = ''mail'', Destination = ''email'', Required = True, CaseSensitive = False\<rparr>,
        \<lparr>Source = ''first'', Destination = ''name'', Required = True, CaseSensitive = False\<rparr>]
       True)))
 \<and> unat (Created (fst (SyncPeople ToLowerASCII
       \<lparr>Source.ListUsers = ([mkPerson ''a@x.com'' (attr2 ''mail'' ''a@x.com'' ''first'' ''A'') False], None)\<rparr>
       \<lparr>Destination.ListUsers = ([mkPerson ''a@x.com'' (attr2 ''email'' ''a@x.com'' ''name'' ''OLD'') False,
                      mkPerson ''b@x.com'' (attr1 ''email'' ''b@x.com'') False], None),
        ApplyChangeSet = (\<lambda>cs. ChangeResults_zero)\<rparr>
       [\<lparr>Source = ''mail'', Destination = ''email'', Required = True, CaseSensitive = False\<rparr>,
        \<lparr>Source = ''first'', Destination = ''name'', Required = True, CaseSensitive = False\<rparr>]
       True))) = 0
 \<and> unat (Updated (fst (SyncPeople ToLowerASCII
       \<lparr>Source.ListUsers = ([mkPerson ''a@x.com'' (attr2 ''mail'' ''a@x.com'' ''first'' ''A'') False], None)\<rparr>
       \<lparr>Destination.ListUsers = ([mkPerson ''a@x.com'' (attr2 ''email'' ''a@x.com'' ''name'' ''OLD'') False,
                      mkPerson ''b@x.com'' (attr1 ''email'' ''b@x.com'') False], None),
        ApplyChangeSet = (\<lambda>cs. ChangeResults_zero)\<rparr>
       [\<lparr>Source = ''mail'', Destination = ''email'', Required = True, CaseSensitive = False\<rparr>,
        \<lparr>Source = ''first'', Destination = ''name'', Required = True, CaseSensitive = False\<rparr>]
       True))) = 1
 \<and> unat (Deleted (fst (SyncPeople ToLowerASCII
       \<lparr>Source.ListUsers = ([mkPerson ''a@x.com'' (attr2 ''mail'' ''a@x.com'' ''first'' ''A'') False], None)\<rparr>
       \<lparr>Destination.ListUsers = ([mkPerson ''a@x.com'' (attr2 ''email'' ''a@x.com'' ''name'' ''OLD'') False,
                      mkPerson ''b@x.com'' (attr1 ''email'' ''b@x.com'') False], None),
        ApplyChangeSet = (\<lambda>cs. ChangeResults_zero)\<rparr>
       [\<lparr>Source = ''mail'', Destination = ''email'', Required = True, CaseSensitive = False\<rparr>,
        \<lparr>Source = ''first'', Destination = ''name'', Required = True, CaseSensitive = False\<rparr>]
       True))) = 1"
proof -
  let ?s = "\<lparr>Source.ListUsers =
       ([mkPerson ''a@x.com'' (attr2 ''mail'' ''a@x.com'' ''first'' ''A'') False], None)\<rparr>"
  let ?d = "\<lparr>Destination.ListUsers =
       ([mkPerson ''a@x.com'' (attr2 ''email'' ''a@x.com'' ''name'' ''OLD'') False,
         mkPerson ''b@x.com'' (attr1 ''email'' ''b@x.com'') False], None),
        ApplyChangeSet = (\<lambda>cs. ChangeResults_zero)\<rparr>"
  let ?m = "[\<lparr>Source = ''mail'', Destination = ''email'', Required = True, CaseSensitive = False\<rparr>,
        \<lparr>Source = ''first'', Destination = ''name'', Required = True, CaseSensitive = False\<rparr>]"
  have 1: "snd (Source.ListUsers ?s) = None" by simp
  have 2: "snd (Destination.ListUsers ?d) = None" by simp
  have 3: "length (fst (Source.ListUsers ?s)) < 2 ^ 63" by simp
  have 4: "length (fst (Destination.ListUsers ?d)) < 2 ^ 63" by simp
  have c: "length (Create (GenerateChangeSet ToLowerASCII
            (fst (RemapToDestinationAttributes (fst (Source.ListUsers ?s)) ?m))
            (fst (Destination.ListUsers ?d)))) = 0"
    by code_simp
  have u: "length (Update (GenerateChangeSet ToLowerASCII
            (fst (RemapToDestinationAttributes (fst (Source.ListUsers ?s)) ?m))
            (fst (Destination.ListUsers ?d)))) = 1"
    by code_simp
  have d: "length (Delete (GenerateChangeSet ToLowerASCII
            (fst (RemapToDestinationAttributes (fst (Source.ListUsers ?s)) ?m))
            (fst (Destination.ListUsers ?d)))) = 1"
    by code_simp
  from C7_dry_run [OF 1 2, where m = ?m and toLower = ToLowerASCII] 3 4 show ?thesis
    unfolding c u d by blast
qed

text \<open>
  C8. If the source's \<open>ListUsers\<close> returns an error, or the source's succeeds and the
  destination's returns an error, then \<open>SyncPeople\<close> returns a result whose \<open>Errors\<close> hold
  that error and whose three counters are zero, and the run neither calls
  \<open>GenerateChangeSet\<close> nor the destination's \<open>ApplyChangeSet\<close>.
\<close>

theorem C8_listing_failure:
  "(snd (Source.ListUsers source) = Some e \<longrightarrow>
      e \<in> set (Errors (fst (SyncPeople toLower source destination m dryRun)))
    \<and> Created (fst (SyncPeople toLower source destination m dryRun)) = 0
    \<and> Updated (fst (SyncPeople toLower source destination m dryRun)) = 0
    \<and> Deleted (fst (SyncPeople toLower source destination m dryRun)) = 0
    \<and> CallGenerateChangeSet \<notin> set (snd (SyncPeople toLower source destination m dryRun))
    \<and> (\<forall>c. CallApplyChangeSet c \<notin> set (snd (SyncPeople toLower source destination m dryRun))))
 \<and> (snd (Source.ListUsers source) = None \<and> snd (Destination.ListUsers destination) = Some e \<longrightarrow>
      e \<in> set (Errors (fst (SyncPeople toLower source destination m dryRun)))
    \<and> Created (fst (SyncPeople toLower source destination m dryRun)) = 0
    \<and> Updated (fst (SyncPeople toLower source destination m dryRun)) = 0
    \<and> Deleted (fst (SyncPeople toLower source destination m dryRun)) = 0
    \<and> CallGenerateChangeSet \<notin> set (snd (SyncPeople toLower source destination m dryRun))
    \<and> (\<forall>c. CallApplyChangeSet c \<notin> set (snd (SyncPeople toLower source destination m dryRun))))"
  by (cases "Source.ListUsers source"; cases "Destination.ListUsers destination")
     (auto simp: SyncPeople_def RemapToDestinationAttributes_eq ChangeResults_zero_def)

theorem C8_listing_failure_witness:
  "''source down'' \<in> set (Errors (fst (SyncPeople ToLowerASCII
       \<lparr>Source.ListUsers = ([], Some ''source down'')\<rparr>
       \<lparr>Destination.ListUsers = ([mkPerson ''b@x.com'' None False], None),
        ApplyChangeSet = (\<lambda>cs. ChangeResults_zero\<lparr>Deleted := 1\<rparr>)\<rparr>
       [] False)))
 \<and> Deleted (fst (SyncPeople ToLowerASCII
       \<lparr>Source.ListUsers = ([], Some ''source down'')\<rparr>
       \<lparr>Destination.ListUsers = ([mkPerson ''b@x.com'' None False], None),
        ApplyChangeSet = (\<lambda>cs. ChangeResults_zero\<lparr>Deleted := 1\<rparr>)\<rparr>
       [] False)) = 0
 \<and> ''destination down'' \<in> set (Errors (fst (SyncPeople ToLowerASCII
       \<lparr>Source.ListUsers = ([mkPerson ''a@x.com'' None False], None)\<rparr>
       \<lparr>Destination.ListUsers = ([], Some ''destination down''),
        ApplyChangeSet = (\<lambda>cs. ChangeResults_zero\<lparr>Created := 1\<rparr>)\<rparr>
       [] False)))
 \<and> Created (fst (SyncPeople ToLowerASCII
       \<lparr>Source.ListUsers = ([mkPerson ''a@x.com'' None False], None)\<rparr>
       \<lparr>Destination.ListUsers = ([], Some ''destination down''),
        ApplyChangeSet = (\<lambda>cs. ChangeResults_zero\<lparr>Created := 1\<rparr>)\<rparr>
       [] False)) = 0
 \<and> CallGenerateChangeSet \<notin> set (snd (SyncPeople ToLowerASCII
       \<lparr>Source.ListUsers = ([mkPerson ''a@x.com'' None False], None)\<rparr>
       \<lparr>Destination.ListUsers = ([], Some ''destination down''),
        ApplyChangeSet = (\<lambda>cs. ChangeResults_zero\<lparr>Created := 1\<rparr>)\<rparr>
       [] False))"
proof -
  let ?s1 = "\<lparr>Source.ListUsers = ([], Some ''source down'')\<rparr>"
  let ?d1 = "\<lparr>Destination.ListUsers = ([mkPerson ''b@x.com'' None False], None),
        ApplyChangeSet = (\<lambda>cs. ChangeResults_zero\<lparr>Deleted := 1\<rparr>)\<rparr>"
  let ?s2 = "\<lparr>Source.ListUsers = ([mkPerson ''a@x.com'' None False], None)\<rparr>"
  let ?d2 = "\<lparr>Destination.ListUsers = ([], Some ''destination down''),
        ApplyChangeSet = (\<lambda>cs. ChangeResults_zero\<lparr>Created := 1\<rparr>)\<rparr>"
  have 1: "snd (Source.ListUsers ?s1) = Some ''source down''" by simp
  have 2: "snd (Source.ListUsers ?s2) = None
         \<and> snd (Destination.ListUsers ?d2) = Some ''destination down''" by simp
  from C8_listing_failure [where source = ?s1 and e = "''source down''" and destination = ?d1
         and m = "[]" and dryRun = False and toLower = ToLowerASCII,
         THEN conjunct1, THEN mp, OF 1]
       C8_listing_failure [where source = ?s2 and e = "''destination down''"
         and destination = ?d2 and m = "[]" and dryRun = False and toLower = ToLowerASCII,
         THEN conjunct2, THEN mp, OF 2]
  show ?thesis by blast
qed

text \<open>
  C9. A destination that \<open>NewWebHelpDeskDesination\<close> constructs without error has
  \<open>BatchSizePerMinute\<close> equal to \<open>DefaultBatchSizePerMinute\<close>, which is positive, when the
  configured value was at most zero, and to the configured value otherwise; likewise
  \<open>NewGoogleContactsDestination\<close> with \<open>BatchSize\<close> and \<open>DefaultBatchSize\<close>, given that this
  constant is positive. In both cases the batch size handed to \<^verbatim>\<open>NewBatchTimer\<close> is positive.
\<close>

theorem C9_positive_batch_size:
  "(NewWebHelpDeskDesination (w, uerr) = (w', None) \<longrightarrow>
      uerr = None
    \<and> BatchSizePerMinute w' =
        (if BatchSizePerMinute w \<le> 0 then DefaultBatchSizePerMinute else BatchSizePerMinute w)
    \<and> 0 < DefaultBatchSizePerMinute
    \<and> 0 < fst (WebHelpDesk_batchTimerArgs w'))
 \<and> (0 < DefaultBatchSize consts
      \<and> NewGoogleContactsDestination consts ty (cfg, gerr) ierr = (Some g, None) \<longrightarrow>
      gerr = None \<and> ierr = None
    \<and> BatchSize (GoogleContactsConfig g) =
        (if BatchSize cfg \<le> 0 then DefaultBatchSize consts else BatchSize cfg)
    \<and> 0 < fst (GoogleContacts_batchTimerArgs g))"
proof -
  have whd: "uerr = None
    \<and> BatchSizePerMinute w' =
        (if BatchSizePerMinute w \<le> 0 then DefaultBatchSizePerMinute else BatchSizePerMinute w)
    \<and> 0 < DefaultBatchSizePerMinute
    \<and> 0 < fst (WebHelpDesk_batchTimerArgs w')"
    if "NewWebHelpDeskDesination (w, uerr) = (w', None)"
    using that
    by (cases uerr)
       (auto simp: NewWebHelpDeskDesination_def WebHelpDesk_batchTimerArgs_def
          DefaultBatchSizePerMinute_def Let_def split: if_splits)
  have goo: "gerr = None \<and> ierr = None
    \<and> BatchSize (GoogleContactsConfig g) =
        (if BatchSize cfg \<le> 0 then DefaultBatchSize consts else BatchSize cfg)
    \<and> 0 < fst (GoogleContacts_batchTimerArgs g)"
    if "0 < DefaultBatchSize consts"
      and "NewGoogleContactsDestination consts ty (cfg, gerr) ierr = (Some g, None)"
    using that
    by (cases gerr; cases ierr)
       (auto simp: NewGoogleContactsDestination_def GoogleContacts_batchTimerArgs_def Let_def
          split: if_splits)
  show ?thesis using whd goo by blast
qed

theorem C9_positive_batch_size_witness:
  "NewWebHelpDeskDesination
     (\<lparr>URL = ''https://whd'', Username = ''u'', Password = ''p'',
       ListClientsPageLimit = 0, BatchSizePerMinute = - 3\<rparr>, None)
   = (\<lparr>URL = ''https://whd'', Username = ''u'', Password = ''p'',
       ListClientsPageLimit = 100, BatchSizePerMinute = 50\<rparr>, None)
 \<and> 0 < fst (WebHelpDesk_batchTimerArgs
       \<lparr>URL = ''https://whd'', Username = ''u'', Password = ''p'',
        ListClientsPageLimit = 100, BatchSizePerMinute = 50\<rparr>)
 \<and> NewGoogleContactsDestination
     \<lparr>DestinationTypeGoogleContacts = ''GoogleContacts'', DefaultBatchSize = 10,
      DefaultBatchDelaySeconds = 3\<rparr>
     ''GoogleContacts''
     (\<lparr>DelegatedAdminEmail = ''admin@x.com'', Domain = ''x.com'', BatchSize = 0,
       BatchDelaySeconds = 7\<rparr>, None)
     None
   = (Some \<lparr>GoogleContactsConfig =
        \<lparr>DelegatedAdminEmail = ''admin@x.com'', Domain = ''x.com'', BatchSize = 10,
         BatchDelaySeconds = 7\<rparr>\<rparr>, None)
 \<and> 0 < fst (GoogleContacts_batchTimerArgs
       \<lparr>GoogleContactsConfig =
        \<lparr>DelegatedAdminEmail = ''admin@x.com'', Domain = ''x.com'', BatchSize = 10,
         BatchDelaySeconds = 7\<rparr>\<rparr>)"
proof -
  let ?w = "\<lparr>URL = ''https://whd'', Username = ''u'', Password = ''p'',
       ListClientsPageLimit = 0, BatchSizePerMinute = - 3\<rparr>"
  let ?w' = "\<lparr>URL = ''https://whd'', Username = ''u'', Password = ''p'',
       ListClientsPageLimit = 100, BatchSizePerMinute = 50\<rparr>"
  let ?k = "\<lparr>DestinationTypeGoogleContacts = ''GoogleContacts'', DefaultBatchSize = 10,
      DefaultBatchDelaySeconds = 3\<rparr>"
  let ?c = "\<lparr>DelegatedAdminEmail = ''admin@x.com'', Domain = ''x.com'', BatchSize = 0,
       BatchDelaySeconds = 7\<rparr>"
  let ?g = "\<lparr>GoogleContactsConfig =
        \<lparr>DelegatedAdminEmail = ''admin@x.com'', Domain = ''x.com'', BatchSize = 10,
         BatchDelaySeconds = 7\<rparr>\<rparr>"
  have 1: "NewWebHelpDeskDesination (?w, None) = (?w', None)"
    by (simp add: NewWebHelpDeskDesination_def DefaultBatchSizePerMinute_def
        DefaultListClientsPageLimit_def)
  have 2: "0 < DefaultBatchSize ?k
         \<and> NewGoogleContactsDestination ?k ''GoogleContacts'' (?c, None) None = (Some ?g, None)"
    by (simp add: NewGoogleContactsDestination_def)
  from C9_positive_batch_size [of ?w None ?w' ?k "''GoogleContacts''" ?c None None ?g] 1 2
  show ?thesis by blast
qed

end
